theory Spec2Isabelle
  imports Main "HOL-Library.Monad_Syntax" "HOL-Library.Sublist"
begin

section \<open>The GraphQL client of graphcool-cli-engine (Client.ts)\<close>

text \<open>
  The client is a facade: every operation sends one GraphQL document (or one HTTP
  request) and unwraps the answer. The network is outside the program, so it is a
  parameter of the model: a script \<open>net\<close> that gives the outcome of the n-th request
  sent, either a resolved response or a rejection with an exception. Everything the
  client does that a caller can observe is recorded in a \<open>world\<close>: how many requests
  were sent and the ordered trace of requests, waits and hints written to the output.
\<close>

subsection \<open>Exceptions, outcomes and the observable world\<close>

text \<open>
  An exception raised by graphql-request: its \<open>message\<close>, and the messages of
  \<open>e.response.errors\<close> when the exception carries a response with an error list
  (\<open>None\<close> when \<open>e.response\<close> or \<open>e.response.errors\<close> is missing).
\<close>

record exn =
  message :: string
  response_errors :: "string list option"

datatype 'a outcome = Resolved 'a | Rejected exn

text \<open>
  What a client method can throw: an exception of the network layer passed on as it
  is, a \<open>TypeError\<close> of the language (reading a property of \<open>undefined\<close>), or a
  \<open>new Error(msg)\<close> built by the client.
\<close>

datatype failure = Raised exn | TypeError | Error string

datatype 'a result = Returned 'a | Threw failure

datatype event = Requested | Waited nat | Hinted string

record world =
  calls :: nat
  events :: "event list"

definition send :: "world \<Rightarrow> world" where
  "send w = w\<lparr>calls := calls w + 1, events := events w @ [Requested]\<rparr>"

text \<open>\<open>await new Promise(r => setTimeout(r, ms))\<close>\<close>

definition sleep :: "nat \<Rightarrow> world \<Rightarrow> world" where
  "sleep ms w = w\<lparr>events := events w @ [Waited ms]\<rparr>"

text \<open>
  Modelled from the spec: the \<open>Output\<close> class is not among the sources; its
  \<open>error\<close> method is taken to write the user-facing hint it is given and to return.
\<close>

definition out_error :: "string \<Rightarrow> world \<Rightarrow> world" where
  "out_error msg w = w\<lparr>events := events w @ [Hinted msg]\<rparr>"

subsection \<open>String tests of the language\<close>

text \<open>\<open>s.startsWith(p)\<close> and \<open>s.includes(p)\<close>.\<close>

fun startsWith :: "string \<Rightarrow> string \<Rightarrow> bool" where
  "startsWith s [] = True"
| "startsWith [] (p # ps) = False"
| "startsWith (c # cs) (p # ps) = (c = p \<and> startsWith cs ps)"

fun str_includes :: "string \<Rightarrow> string \<Rightarrow> bool" where
  "str_includes [] p = (p = [])"
| "str_includes (c # cs) p = (startsWith (c # cs) p \<or> str_includes cs p)"

subsection \<open>The request wrapper: \<open>get client()\<close>\<close>

text \<open>
  \<open>client_request bold_green net w\<close> is \<open>this.client.request(query, variables)\<close>.
  \<open>bold_green\<close> stands for \<open>chalk.bold.green\<close>, a library function. The result
  \<open>Returned None\<close> is the \<open>undefined\<close> the arrow function returns when it falls off
  its end after writing a hint. The branch for \<open>No valid session\<close> calls the wrapper
  again, so the wrapper need not return: it is a partial function, \<open>None\<close> meaning
  that it never returns.
\<close>

partial_function (option) client_request ::
  "(string \<Rightarrow> string) \<Rightarrow> (nat \<Rightarrow> 'a outcome) \<Rightarrow> world \<Rightarrow> ('a option result \<times> world) option"
where
  "client_request bold_green net w =
     (case net (calls w) of
        Resolved v \<Rightarrow> Some (Returned (Some v), send w)
      | Rejected e \<Rightarrow>
          if str_includes (message e) ''No service with id'' then
            (case response_errors e of
               None \<Rightarrow> Some (Threw TypeError, send w)
             | Some [] \<Rightarrow> Some (Threw TypeError, send w)
             | Some (m # ms) \<Rightarrow>
                 Some (Returned None,
                   out_error (m @ '' Please check if you are logged in to the right account.'')
                     (send w)))
          else if startsWith (message e) ''No valid session'' then
            client_request bold_green net (send w)
          else if str_includes (message e) ''ECONNREFUSED'' \<and>
                  (str_includes (message e) ''localhost'' \<or> str_includes (message e) ''127.0.0.1'') then
            Some (Returned None,
              out_error (''Could not connect to local cluster. Please use '' @
                         bold_green ''graphcool local up'' @
                         '' to start your local Graphcool cluster.'')
                (send w))
          else Some (Threw (Raised e), send w))"

subsection \<open>The wait loops\<close>

record migration_status =
  revision :: int
  hasBeenApplied :: bool

text \<open>
  \<open>waitForMigration(name, stage, revision)\<close>: a \<open>while (true)\<close> loop around the
  wrapped request. An exception of the request leaves the loop (there is no
  \<open>try\<close>), and destructuring the \<open>undefined\<close> that the wrapper returns after a hint
  is a \<open>TypeError\<close>.
\<close>

partial_function (option) waitForMigration ::
  "(string \<Rightarrow> string) \<Rightarrow> (nat \<Rightarrow> migration_status outcome) \<Rightarrow> int \<Rightarrow> world
     \<Rightarrow> (unit result \<times> world) option"
where
  "waitForMigration bold_green net wanted w =
     Option.bind (client_request bold_green net w) (\<lambda>(r, w1).
       case r of
         Threw f \<Rightarrow> Some (Threw f, w1)
       | Returned None \<Rightarrow> Some (Threw TypeError, w1)
       | Returned (Some migrationStatus) \<Rightarrow>
           if revision migrationStatus \<ge> wanted \<and> hasBeenApplied migrationStatus
           then Some (Returned (), w1)
           else waitForMigration bold_green net wanted (sleep 500 w1))"

text \<open>
  \<open>waitForLocalDocker(endpoint)\<close>: the introspection request goes through
  graphql-request's \<open>request\<close> directly, inside a \<open>try\<close> whose \<open>catch\<close> only logs.
  The 500 ms wait follows every attempt, the successful one too.
\<close>

partial_function (option) waitForLocalDocker ::
  "(nat \<Rightarrow> 'a outcome) \<Rightarrow> world \<Rightarrow> (unit result \<times> world) option"
where
  "waitForLocalDocker net w =
     (case net (calls w) of
        Resolved v \<Rightarrow> Some (Returned (), sleep 500 (send w))
      | Rejected e \<Rightarrow> waitForLocalDocker net (sleep 500 (send w)))"

subsection \<open>Pass-through queries: \<open>listProjects\<close>, \<open>getPats\<close>, \<open>getFunctions\<close>\<close>

record Project =
  project_name :: string
  project_stage :: string

record listProjects_payload =
  payload_listProjects :: "Project list"

text \<open>
  Destructuring the answer of the wrapper: \<open>const { ... } = await this.client.request(...)\<close>
  throws a \<open>TypeError\<close> on \<open>undefined\<close> and passes an exception of the request on.
\<close>

definition destructure ::
  "('a option result \<times> world) option \<Rightarrow> ('a \<Rightarrow> 'b) \<Rightarrow> ('b result \<times> world) option" where
  "destructure answer select =
     Option.bind answer (\<lambda>(r, w1).
       case r of
         Threw f \<Rightarrow> Some (Threw f, w1)
       | Returned None \<Rightarrow> Some (Threw TypeError, w1)
       | Returned (Some payload) \<Rightarrow> Some (Returned (select payload), w1))"

definition listProjects ::
  "(string \<Rightarrow> string) \<Rightarrow> (nat \<Rightarrow> listProjects_payload outcome) \<Rightarrow> world
     \<Rightarrow> (Project list result \<times> world) option" where
  "listProjects bold_green net w =
     destructure (client_request bold_green net w) payload_listProjects"

record PAT =
  pat_id :: string
  pat_name :: string
  pat_token :: string

text \<open>A connection of the remote schema: \<open>{ edges: Array<{ node: T }> }\<close>.\<close>

record 'n edge =
  node :: 'n

record 'n connection =
  edges :: "'n edge list"

text \<open>
  \<open>viewer.project.permanentAuthTokens\<close> of \<open>ProjectPatPayload\<close>; the code tests it for
  falsiness, so it may be absent.
\<close>

record ProjectPatPayload =
  permanentAuthTokens :: "PAT connection option"

definition getPats ::
  "(string \<Rightarrow> string) \<Rightarrow> (nat \<Rightarrow> ProjectPatPayload outcome) \<Rightarrow> world
     \<Rightarrow> (PAT list result \<times> world) option" where
  "getPats bold_green net w =
     destructure (client_request bold_green net w)
       (\<lambda>payload. case permanentAuthTokens payload of
                     None \<Rightarrow> []
                   | Some tokens \<Rightarrow> map node (edges tokens))"

record FunctionStats =
  requestCount :: int
  errorCount :: int

record FunctionInfo =
  fn_name :: string
  fn_id :: string
  fn_type :: string
  fn_stats :: FunctionStats
  fn_typename :: string

record FunctionsPayload =
  payload_functions :: "FunctionInfo connection"

definition getFunctions ::
  "(string \<Rightarrow> string) \<Rightarrow> (nat \<Rightarrow> FunctionsPayload outcome) \<Rightarrow> world
     \<Rightarrow> (FunctionInfo list result \<times> world) option" where
  "getFunctions bold_green net w =
     destructure (client_request bold_green net w)
       (\<lambda>payload. map node (edges (payload_functions payload)))"

subsection \<open>\<open>normalizeName\<close> and \<open>getFunction\<close>\<close>

text \<open>
  A \<open>char\<close> is one code unit below 256 (Latin-1). On these \<open>toLowerCase\<close> maps
  \<open>A\<close>..\<open>Z\<close> and \<open>U+00C0\<close>..\<open>U+00DE\<close> (without the multiplication sign
  \<open>U+00D7\<close>) 32 places up and leaves every other code unit alone; \<open>trim\<close> removes
  tab, line feed, vertical tab, form feed, carriage return, space and no-break space
  from both ends.
\<close>

definition lower_char :: "char \<Rightarrow> char" where
  "lower_char c =
     (let n = (of_char c :: nat)
      in if (65 \<le> n \<and> n \<le> 90) \<or> (192 \<le> n \<and> n \<le> 222 \<and> n \<noteq> 215)
         then char_of (n + 32) else c)"

definition toLowerCase :: "string \<Rightarrow> string" where
  "toLowerCase s = map lower_char s"

definition is_space :: "char \<Rightarrow> bool" where
  "is_space c = (of_char c \<in> {9, 10, 11, 12, 13, 32, 160 :: nat})"

definition trim :: "string \<Rightarrow> string" where
  "trim s = rev (dropWhile is_space (rev (dropWhile is_space s)))"

definition normalizeName :: "string \<Rightarrow> string" where
  "normalizeName name = trim (toLowerCase name)"

text \<open>
  \<open>functions.find(fn => normalizeName(fn.name) === normalizedFunctionName) || null\<close>:
  a function record is an object, hence truthy, so \<open>|| null\<close> only turns the
  \<open>undefined\<close> of an unsuccessful search into \<open>null\<close>.
\<close>

definition getFunction ::
  "(string \<Rightarrow> string) \<Rightarrow> (nat \<Rightarrow> FunctionsPayload outcome) \<Rightarrow> string \<Rightarrow> world
     \<Rightarrow> (FunctionInfo option result \<times> world) option" where
  "getFunction bold_green net functionName w =
     Option.bind (getFunctions bold_green net w) (\<lambda>(r, w1).
       case r of
         Threw f \<Rightarrow> Some (Threw f, w1)
       | Returned fns \<Rightarrow>
           (let normalizedFunctionName = normalizeName functionName
            in Some (Returned
                 (find (\<lambda>fn. normalizeName (fn_name fn) = normalizedFunctionName) fns), w1)))"

subsection \<open>\<open>getCluster\<close>\<close>

record Cluster =
  cluster_name :: string
  cluster_deployEndpoint :: string
  cluster_token :: string

record project_payload =
  payload_project :: "Project option"

text \<open>
  \<open>getClient(cluster)\<close> builds a plain client from the cluster's deploy endpoint and
  token. Here the network answers a request by the endpoint and token it is sent to,
  the variables \<open>name\<close> and \<open>stage\<close> of the query, and its position among the
  requests sent.
\<close>

definition getClient :: "(string \<Rightarrow> string \<Rightarrow> 'r) \<Rightarrow> Cluster \<Rightarrow> 'r" where
  "getClient net cluster = net (cluster_deployEndpoint cluster) (cluster_token cluster)"

text \<open>
  The \<open>for\<close> loop of \<open>getCluster\<close>: each cluster is asked through its own plain
  client (\<open>getClient\<close>, not the wrapper); a cluster whose answer carries a project is
  appended to \<open>foundClusters\<close>, and the empty \<open>catch\<close> swallows a failed request.
\<close>

fun getCluster_loop ::
  "(string \<Rightarrow> string \<Rightarrow> string \<Rightarrow> string \<Rightarrow> nat \<Rightarrow> project_payload outcome) \<Rightarrow>
     string \<Rightarrow> string \<Rightarrow> Cluster list \<Rightarrow> Cluster list \<Rightarrow> world \<Rightarrow> Cluster list \<times> world" where
  "getCluster_loop net name stage [] foundClusters w = (foundClusters, w)"
| "getCluster_loop net name stage (cluster # rest) foundClusters w =
     (case getClient net cluster name stage (calls w) of
        Resolved payload \<Rightarrow>
          (case payload_project payload of
             Some project \<Rightarrow>
               getCluster_loop net name stage rest (foundClusters @ [cluster]) (send w)
           | None \<Rightarrow> getCluster_loop net name stage rest foundClusters (send w))
      | Rejected e \<Rightarrow> getCluster_loop net name stage rest foundClusters (send w))"

text \<open>\<open>xs.join(sep)\<close>\<close>

fun join :: "string \<Rightarrow> string list \<Rightarrow> string" where
  "join sep [] = []"
| "join sep [x] = x"
| "join sep (x # y # ys) = x @ sep @ join sep (y # ys)"

definition ambiguous_message :: "string \<Rightarrow> string \<Rightarrow> Cluster list \<Rightarrow> string" where
  "ambiguous_message name stage foundClusters =
     ''The service name / stage combination '' @ [CHR 0x22] @ name @ ''@'' @ stage @ [CHR 0x22] @
     '' is ambigious. It exists in clusters '' @ join '', '' (map cluster_name foundClusters)"

definition getCluster ::
  "(string \<Rightarrow> string \<Rightarrow> string \<Rightarrow> string \<Rightarrow> nat \<Rightarrow> project_payload outcome) \<Rightarrow>
     Cluster list \<Rightarrow> string \<Rightarrow> string \<Rightarrow> world \<Rightarrow> Cluster option result \<times> world" where
  "getCluster net clusters name stage w =
     (let (foundClusters, w1) = getCluster_loop net name stage clusters [] w
      in if length foundClusters = 1 then (Returned (Some (foundClusters ! 0)), w1)
         else if length foundClusters > 1
         then (Threw (Error (ambiguous_message name stage foundClusters)), w1)
         else (Returned None, w1))"

definition getClusterSafe ::
  "(string \<Rightarrow> string \<Rightarrow> string \<Rightarrow> string \<Rightarrow> nat \<Rightarrow> project_payload outcome) \<Rightarrow>
     Cluster list \<Rightarrow> string \<Rightarrow> string \<Rightarrow> world \<Rightarrow> Cluster result \<times> world" where
  "getClusterSafe net clusters name stage w =
     (case getCluster net clusters name stage w of
        (Threw f, w1) \<Rightarrow> (Threw f, w1)
      | (Returned None, w1) \<Rightarrow>
          (Threw (Error (''No cluster for '' @ [CHR 0x22] @ name @ ''@'' @ stage @ [CHR 0x22] @
                         '' found. Please make sure to deploy the stage '' @ stage)), w1)
      | (Returned (Some cluster), w1) \<Rightarrow> (Returned cluster, w1))"

subsection \<open>\<open>download\<close>, \<open>upload\<close>, \<open>reset\<close>\<close>

text \<open>
  The three methods post with \<open>fetch\<close>, read the body as text and hand it to
  \<open>JSON.parse\<close>. \<open>JSON.parse\<close> is a built-in of the language and a parameter here:
  \<open>parse text\<close> is \<open>Some\<close> of the parsed value, or \<open>None\<close> where \<open>JSON.parse\<close>
  throws. A rejected \<open>fetch\<close> is passed on, being outside the \<open>try\<close>.
\<close>

definition download ::
  "(string \<Rightarrow> 'j option) \<Rightarrow> (nat \<Rightarrow> string outcome) \<Rightarrow> world \<Rightarrow> 'j result \<times> world" where
  "download parse net w =
     (case net (calls w) of
        Rejected e \<Rightarrow> (Threw (Raised e), send w)
      | Resolved text \<Rightarrow>
          (case parse text of
             Some v \<Rightarrow> (Returned v, send w)
           | None \<Rightarrow> (Threw (Error text), send w)))"

definition upload ::
  "(string \<Rightarrow> 'j option) \<Rightarrow> (nat \<Rightarrow> string outcome) \<Rightarrow> world \<Rightarrow> 'j result \<times> world" where
  "upload parse net w =
     (case net (calls w) of
        Rejected e \<Rightarrow> (Threw (Raised e), send w)
      | Resolved text \<Rightarrow>
          (case parse text of
             Some v \<Rightarrow> (Returned v, send w)
           | None \<Rightarrow> (Threw (Error text), send w)))"

definition reset ::
  "(string \<Rightarrow> 'j option) \<Rightarrow> (nat \<Rightarrow> string outcome) \<Rightarrow> world \<Rightarrow> 'j result \<times> world" where
  "reset parse net w =
     (case net (calls w) of
        Rejected e \<Rightarrow> (Threw (Raised e), send w)
      | Resolved text \<Rightarrow>
          (case parse text of
             Some v \<Rightarrow> (Returned v, send w)
           | None \<Rightarrow> (Threw (Error text), send w)))"

section \<open>The migration-step contract\<close>

subsection \<open>Client side: the inline fragments of \<open>MIGRATION_FRAGMENT\<close>\<close>

text \<open>
  A selection is a field, or a field under an alias (\<open>alias: field\<close>).
  \<open>MIGRATION_FRAGMENT\<close> selects \<open>revision\<close>, \<open>steps\<close> and \<open>hasBeenApplied\<close> of a
  \<open>Migration\<close>; inside \<open>steps\<close> it selects \<open>type\<close> and \<open>__typename\<close> and then one
  inline fragment \<open>... on T { ... }\<close> per kind of step. \<open>MIGRATION_FRAGMENT_steps\<close>
  lists these inline fragments in the order of the document.
\<close>

datatype selection = Field string | Alias string string

fun selected_field :: "selection \<Rightarrow> string" where
  "selected_field (Field f) = f"
| "selected_field (Alias a f) = f"

definition MIGRATION_FRAGMENT_steps :: "(string \<times> selection list) list" where
  "MIGRATION_FRAGMENT_steps =
    [(''CreateEnum'', [Field ''name'', Alias ''ce_values'' ''values'']),
     (''CreateField'',
        [Field ''model'', Field ''name'',
         Alias ''cf_typeName'' ''typeName'',
         Alias ''cf_isRequired'' ''isRequired'',
         Alias ''cf_isList'' ''isList'',
         Alias ''cf_isUnique'' ''unique'',
         Alias ''cf_relation'' ''relation'',
         Alias ''cf_defaultValue'' ''default'',
         Alias ''cf_enum'' ''enum'']),
     (''CreateModel'', [Field ''name'']),
     (''CreateRelation'', [Field ''name'', Field ''leftModel'', Field ''rightModel'']),
     (''DeleteEnum'', [Field ''name'']),
     (''DeleteField'', [Field ''model'', Field ''name'']),
     (''DeleteModel'', [Field ''name'']),
     (''DeleteRelation'', [Field ''name'']),
     (''UpdateEnum'', [Field ''name'', Field ''newName'', Field ''values'']),
     (''UpdateField'',
        [Field ''model'', Field ''name'', Field ''newName'', Field ''typeName'',
         Field ''isRequired'', Field ''isList'',
         Alias ''isUnique'' ''unique'',
         Field ''relation'', Field ''default'', Field ''enum'']),
     (''UpdateModel'', [Field ''name'', Alias ''um_newName'' ''newName''])]"

subsection \<open>Server side: \<open>MigrationStepType\<close>\<close>

datatype output_type =
  StringType | BooleanType | ListType output_type | OptionType output_type

datatype schema_type =
  InterfaceType string "(string \<times> output_type) list"
| ObjectType string "string list" "(string \<times> output_type) list"

definition Type :: schema_type where
  "Type = InterfaceType ''MigrationStep'' [(''type'', StringType)]"

text \<open>
  \<open>fieldsHelper[T](fields)\<close> names the object type after the class \<open>T\<close>
  (\<open>ct.runtimeClass.getSimpleName\<close>) and makes it implement the interface \<open>Type\<close>.
\<close>

definition fieldsHelper :: "string \<Rightarrow> (string \<times> output_type) list \<Rightarrow> schema_type" where
  "fieldsHelper simpleName fs = ObjectType simpleName [''MigrationStep''] fs"

definition CreateModelType :: schema_type where
  "CreateModelType = fieldsHelper ''CreateModel'' [(''name'', StringType)]"

definition DeleteModelType :: schema_type where
  "DeleteModelType = fieldsHelper ''DeleteModel'' [(''name'', StringType)]"

definition UpdateModelType :: schema_type where
  "UpdateModelType = fieldsHelper ''UpdateModel''
     [(''name'', StringType), (''newName'', StringType)]"

definition CreateEnumType :: schema_type where
  "CreateEnumType = fieldsHelper ''CreateEnum''
     [(''name'', StringType), (''values'', ListType StringType)]"

definition DeleteEnumType :: schema_type where
  "DeleteEnumType = fieldsHelper ''DeleteEnum'' [(''name'', StringType)]"

definition UpdateEnumType :: schema_type where
  "UpdateEnumType = fieldsHelper ''UpdateEnum''
     [(''name'', StringType),
      (''newName'', OptionType StringType),
      (''values'', OptionType (ListType StringType))]"

definition CreateFieldType :: schema_type where
  "CreateFieldType = fieldsHelper ''CreateField''
     [(''model'', StringType),
      (''name'', StringType),
      (''typeName'', StringType),
      (''isRequired'', BooleanType),
      (''isList'', BooleanType),
      (''isUnique'', BooleanType),
      (''relation'', OptionType StringType),
      (''defaultValue'', OptionType StringType),
      (''enum'', OptionType StringType)]"

definition DeleteFieldType :: schema_type where
  "DeleteFieldType = fieldsHelper ''DeleteField''
     [(''model'', StringType), (''name'', StringType)]"

definition UpdateFieldType :: schema_type where
  "UpdateFieldType = fieldsHelper ''UpdateField''
     [(''model'', StringType),
      (''name'', StringType),
      (''newName'', OptionType StringType),
      (''typeName'', OptionType StringType),
      (''isRequired'', OptionType BooleanType),
      (''isList'', OptionType BooleanType),
      (''isUnique'', OptionType BooleanType),
      (''relation'', OptionType (OptionType StringType)),
      (''defaultValue'', OptionType (OptionType StringType)),
      (''enum'', OptionType (OptionType StringType))]"

definition allTypes :: "schema_type list" where
  "allTypes =
     [Type, CreateModelType, DeleteModelType, UpdateModelType, CreateEnumType,
      DeleteEnumType, UpdateEnumType, CreateFieldType, UpdateFieldType, DeleteFieldType]"

subsection \<open>Comparing the two sides\<close>

text \<open>
  \<open>object_fields types T\<close> is the list of field names that the object type named \<open>T\<close>
  declares, or \<open>None\<close> when \<open>types\<close> has no object type of that name.
\<close>

fun object_fields :: "schema_type list \<Rightarrow> string \<Rightarrow> string list option" where
  "object_fields [] T = None"
| "object_fields (InterfaceType n fs # ts) T = object_fields ts T"
| "object_fields (ObjectType n ifaces fs # ts) T =
     (if n = T then Some (map fst fs) else object_fields ts T)"

definition is_declared :: "string \<Rightarrow> string \<Rightarrow> bool" where
  "is_declared T f =
     (case object_fields allTypes T of None \<Rightarrow> False | Some fs \<Rightarrow> f \<in> set fs)"

text \<open>The kinds named by the fragment that have no object type on the server.\<close>

definition unmatched_kinds :: "string list" where
  "unmatched_kinds =
     filter (\<lambda>T. object_fields allTypes T = None) (map fst MIGRATION_FRAGMENT_steps)"

text \<open>The pairs (kind, field) that the fragment selects and the server does not declare.\<close>

definition undeclared_selections :: "(string \<times> string) list" where
  "undeclared_selections =
     concat (map (\<lambda>(T, sels).
               map (\<lambda>s. (T, selected_field s))
                 (filter (\<lambda>s. \<not> is_declared T (selected_field s)) sels))
             MIGRATION_FRAGMENT_steps)"

section \<open>Vocabulary of the theorems\<close>

subsection \<open>Scripts, polls and attempts\<close>

text \<open>
  \<open>is_response x\<close>: the request resolved. \<open>reached wanted x\<close>: the request resolved
  with a status that passes the test of \<open>waitForMigration\<close>, revision at least
  \<open>wanted\<close> and \<open>hasBeenApplied\<close> set.
\<close>

definition is_response :: "'a outcome \<Rightarrow> bool" where
  "is_response x = (case x of Resolved v \<Rightarrow> True | Rejected e \<Rightarrow> False)"

definition reached :: "int \<Rightarrow> migration_status outcome \<Rightarrow> bool" where
  "reached wanted x =
     (case x of
        Resolved migrationStatus \<Rightarrow>
          wanted \<le> revision migrationStatus \<and> hasBeenApplied migrationStatus
      | Rejected e \<Rightarrow> False)"

text \<open>\<open>has_project x\<close>: the cluster answered, and its answer carries a project.\<close>

definition has_project :: "project_payload outcome \<Rightarrow> bool" where
  "has_project x =
     (case x of
        Resolved payload \<Rightarrow> payload_project payload \<noteq> None
      | Rejected e \<Rightarrow> False)"

text \<open>
  \<open>polls k w\<close> is the world after \<open>k\<close> requests each followed by a wait of 500 ms and
  one more request; \<open>attempts k w\<close> is the world after \<open>k\<close> requests each followed by
  a wait of 500 ms.
\<close>

fun polls :: "nat \<Rightarrow> world \<Rightarrow> world" where
  "polls 0 w = send w"
| "polls (Suc k) w = polls k (sleep 500 (send w))"

fun attempts :: "nat \<Rightarrow> world \<Rightarrow> world" where
  "attempts 0 w = w"
| "attempts (Suc k) w = attempts k (sleep 500 (send w))"

subsection \<open>Concrete exceptions and scripts\<close>

definition boom :: exn where
  "boom = \<lparr>message = ''boom'', response_errors = None\<rparr>"

definition expired_session :: exn where
  "expired_session = \<lparr>message = ''No valid session'', response_errors = None\<rparr>"

definition unknown_service :: exn where
  "unknown_service =
     \<lparr>message = ''No service with id abc'', response_errors = Some [''Not found.'']\<rparr>"

definition refused :: exn where
  "refused = \<lparr>message = ''connect ECONNREFUSED 127.0.0.1:60000'', response_errors = None\<rparr>"

definition rejecting :: "exn \<Rightarrow> nat \<Rightarrow> 'a outcome" where
  "rejecting e n = Rejected e"

definition rejecting_once :: "exn \<Rightarrow> 'a \<Rightarrow> nat \<Rightarrow> 'a outcome" where
  "rejecting_once e v n = (if n = 0 then Rejected e else Resolved v)"

definition applied_revisions :: "nat \<Rightarrow> migration_status outcome" where
  "applied_revisions n = Resolved \<lparr>revision = int n, hasBeenApplied = True\<rparr>"

definition pending_revisions :: "nat \<Rightarrow> migration_status outcome" where
  "pending_revisions n = Resolved \<lparr>revision = int n, hasBeenApplied = False\<rparr>"

definition resolving :: "'a \<Rightarrow> nat \<Rightarrow> 'a outcome" where
  "resolving v n = Resolved v"

text \<open>
  A stand-in for \<open>JSON.parse\<close> that accepts the one document \<open>null\<close> and throws on
  every other text.
\<close>

definition parse_null :: "string \<Rightarrow> unit option" where
  "parse_null text = (if text = ''null'' then Some () else None)"

text \<open>
  Four clusters and a network for them: the endpoint \<open>eu\<close> refuses the connection,
  the endpoint \<open>staging\<close> answers without a project, and every other endpoint reports
  the project asked for.
\<close>

definition local_cluster :: Cluster where
  "local_cluster =
     \<lparr>cluster_name = ''local'', cluster_deployEndpoint = ''local'', cluster_token = ''a''\<rparr>"

definition eu_cluster :: Cluster where
  "eu_cluster =
     \<lparr>cluster_name = ''shared-eu'', cluster_deployEndpoint = ''eu'', cluster_token = ''b''\<rparr>"

definition staging_cluster :: Cluster where
  "staging_cluster =
     \<lparr>cluster_name = ''staging'', cluster_deployEndpoint = ''staging'', cluster_token = ''c''\<rparr>"

definition us_cluster :: Cluster where
  "us_cluster =
     \<lparr>cluster_name = ''shared-us'', cluster_deployEndpoint = ''us'', cluster_token = ''d''\<rparr>"

definition cluster_answers ::
  "string \<Rightarrow> string \<Rightarrow> string \<Rightarrow> string \<Rightarrow> nat \<Rightarrow> project_payload outcome" where
  "cluster_answers endpoint token name stage n =
     (if endpoint = ''eu'' then Rejected refused
      else if endpoint = ''staging'' then Resolved \<lparr>payload_project = None\<rparr>
      else Resolved \<lparr>payload_project = Some \<lparr>project_name = name, project_stage = stage\<rparr>\<rparr>)"

definition start :: world where
  "start = \<lparr>calls = 0, events = []\<rparr>"

section \<open>Theorems\<close>

subsection \<open>The string tests\<close>

text \<open>
  The two recursive tests are the library's notions: \<open>startsWith\<close> is the prefix
  relation, \<open>str_includes\<close> the relation of being a contiguous sublist.
\<close>

lemma startsWith_prefix: "startsWith s p = prefix p s"
  by (induction s p rule: startsWith.induct) auto

lemma str_includes_sublist: "str_includes s p = sublist p s"
  by (induction s) (auto simp: startsWith_prefix sublist_Cons_right)

subsection \<open>The migration-step contract\<close>

lemmas schema_defs =
  allTypes_def Type_def fieldsHelper_def
  CreateModelType_def DeleteModelType_def UpdateModelType_def
  CreateEnumType_def DeleteEnumType_def UpdateEnumType_def
  CreateFieldType_def UpdateFieldType_def DeleteFieldType_def

text \<open>
  C7. The claim is that every field the inline fragments of \<open>MIGRATION_FRAGMENT\<close>
  select is declared by the server's object type of the same name, and that every kind
  the fragment names has an object type in \<open>MigrationStepType.allTypes\<close>. Evaluating
  the two sides shows where they part: the fragment names eleven kinds, of which
  \<open>CreateRelation\<close> and \<open>DeleteRelation\<close> have no object type on the server, and on
  \<open>CreateField\<close> and \<open>UpdateField\<close> it selects \<open>unique\<close> and \<open>default\<close>, which the
  server declares under the names \<open>isUnique\<close> and \<open>defaultValue\<close>.
\<close>

theorem migration_contract_mismatch:
  "length MIGRATION_FRAGMENT_steps = 11 \<and>
   unmatched_kinds = [''CreateRelation'', ''DeleteRelation''] \<and>
   undeclared_selections =
     [(''CreateField'', ''unique''), (''CreateField'', ''default''),
      (''CreateRelation'', ''name''), (''CreateRelation'', ''leftModel''),
      (''CreateRelation'', ''rightModel''), (''DeleteRelation'', ''name''),
      (''UpdateField'', ''unique''), (''UpdateField'', ''default'')] \<and>
   is_declared ''CreateField'' ''isUnique'' \<and> is_declared ''CreateField'' ''defaultValue'' \<and>
   is_declared ''UpdateField'' ''isUnique'' \<and> is_declared ''UpdateField'' ''defaultValue''"
proof -
  have kinds: "length MIGRATION_FRAGMENT_steps = 11"
    by (simp add: MIGRATION_FRAGMENT_steps_def)
  have unmatched: "unmatched_kinds = [''CreateRelation'', ''DeleteRelation'']"
    by (simp add: unmatched_kinds_def MIGRATION_FRAGMENT_steps_def schema_defs)
  have undeclared: "undeclared_selections =
     [(''CreateField'', ''unique''), (''CreateField'', ''default''),
      (''CreateRelation'', ''name''), (''CreateRelation'', ''leftModel''),
      (''CreateRelation'', ''rightModel''), (''DeleteRelation'', ''name''),
      (''UpdateField'', ''unique''), (''UpdateField'', ''default'')]"
    by (simp add: undeclared_selections_def MIGRATION_FRAGMENT_steps_def is_declared_def
          schema_defs)
  have declared:
    "is_declared ''CreateField'' ''isUnique''" "is_declared ''CreateField'' ''defaultValue''"
    "is_declared ''UpdateField'' ''isUnique''" "is_declared ''UpdateField'' ''defaultValue''"
    by (simp_all add: is_declared_def schema_defs)
  from kinds unmatched undeclared declared show ?thesis by simp
qed

subsection \<open>The wait loops\<close>

lemma client_request_Resolved:
  "net (calls w) = Resolved v \<Longrightarrow> client_request bg net w = Some (Returned (Some v), send w)"
  by (subst client_request.simps) simp

lemma waitForMigration_reached:
  "reached wanted (net (calls w)) \<Longrightarrow>
   waitForMigration bg net wanted w = Some (Returned (), send w)"
  apply (subst waitForMigration.simps)
  apply (cases "net (calls w)")
   apply (simp_all add: reached_def client_request_Resolved)
  done

lemma waitForMigration_again:
  "is_response (net (calls w)) \<Longrightarrow> \<not> reached wanted (net (calls w)) \<Longrightarrow>
   waitForMigration bg net wanted w = waitForMigration bg net wanted (sleep 500 (send w))"
  apply (subst waitForMigration.simps)
  apply (cases "net (calls w)")
   apply (auto simp add: reached_def is_response_def client_request_Resolved)
  done

lemma calls_sleep_send [simp]: "calls (sleep ms (send w)) = Suc (calls w)"
  by (simp add: sleep_def send_def)

lemma waitForMigration_polls:
  "\<lbrakk>\<forall>i<k. is_response (net (calls w + i)) \<and> \<not> reached wanted (net (calls w + i));
    reached wanted (net (calls w + k))\<rbrakk>
   \<Longrightarrow> waitForMigration bg net wanted w = Some (Returned (), polls k w)"
proof (induction k arbitrary: w)
  case 0
  then show ?case by (simp add: waitForMigration_reached)
next
  case (Suc k)
  from Suc.prems(1)[rule_format, of 0]
  have first: "is_response (net (calls w))" "\<not> reached wanted (net (calls w))"
    by simp_all
  let ?w = "sleep 500 (send w)"
  have "\<forall>i<k. is_response (net (calls ?w + i)) \<and> \<not> reached wanted (net (calls ?w + i))"
  proof (intro allI impI)
    fix i assume "i < k"
    then have "Suc i < Suc k" by simp
    from Suc.prems(1)[rule_format, OF this] show
      "is_response (net (calls ?w + i)) \<and> \<not> reached wanted (net (calls ?w + i))"
      by simp
  qed
  moreover have "reached wanted (net (calls ?w + k))"
    using Suc.prems(2) by simp
  ultimately have "waitForMigration bg net wanted ?w = Some (Returned (), polls k ?w)"
    by (rule Suc.IH)
  with first show ?case
    by (simp add: waitForMigration_again)
qed

lemma polls_calls: "calls (polls k w) = calls w + k + 1"
  by (induction k arbitrary: w) (simp_all add: send_def sleep_def)

lemma polls_events:
  "events (polls k w) = events w @ concat (replicate k [Requested, Waited 500]) @ [Requested]"
  by (induction k arbitrary: w) (simp_all add: send_def sleep_def)

lemma waitForMigration_returns_reached:
  assumes ret: "waitForMigration bg net wanted w = Some y"
    and resp: "\<forall>n. is_response (net n)"
  shows "\<exists>n\<ge>calls w. reached wanted (net n)"
proof -
  have "(\<forall>n. is_response (net n)) \<longrightarrow> (\<exists>n\<ge>calls w. reached wanted (net n))"
  proof (rule waitForMigration.raw_induct
      [where P = "\<lambda>bg net wanted w y.
         (\<forall>n. is_response (net n)) \<longrightarrow> (\<exists>n\<ge>calls w. reached wanted (net n))",
       OF _ ret], goal_cases)
    case (1 wfm bg net wanted w y)
    note IH = 1(1) and eq = 1(2)
    show ?case
    proof
      assume resp: "\<forall>n. is_response (net n)"
      then obtain s where s: "net (calls w) = Resolved s"
        by (cases "net (calls w)") (auto simp: is_response_def dest: spec[of _ "calls w"])
      show "\<exists>n\<ge>calls w. reached wanted (net n)"
      proof (cases "reached wanted (net (calls w))")
        case True
        then show ?thesis by blast
      next
        case False
        with s eq have "wfm bg net wanted (sleep 500 (send w)) = Some y"
          by (auto simp: client_request_Resolved reached_def split: if_splits)
        from IH[OF this] resp obtain n
          where "calls (sleep 500 (send w)) \<le> n" "reached wanted (net n)" by blast
        then have "calls w \<le> n" "reached wanted (net n)" by simp_all
        then show ?thesis by blast
      qed
    qed
  qed
  with resp show ?thesis by blast
qed

lemma calls_send [simp]: "calls (send w) = Suc (calls w)"
  by (simp add: send_def)

lemma calls_sleep [simp]: "calls (sleep ms w) = calls w"
  by (simp add: sleep_def)

lemma calls_out_error [simp]: "calls (out_error m w) = calls w"
  by (simp add: out_error_def)

lemma client_request_Returned_Some:
  assumes ret: "client_request bg net w = Some (Returned (Some v), w')"
  shows "calls w < calls w' \<and> net (calls w' - 1) = Resolved v"
proof -
  have "\<forall>v0 w0. (Returned (Some v), w') = (Returned (Some v0), w0) \<longrightarrow>
          calls w < calls w0 \<and> net (calls w0 - 1) = Resolved v0"
  proof (rule client_request.raw_induct
      [where P = "\<lambda>bg net w y. \<forall>v0 w0. y = (Returned (Some v0), w0) \<longrightarrow>
          calls w < calls w0 \<and> net (calls w0 - 1) = Resolved v0", OF _ ret], goal_cases)
    case (1 cr bg net w y)
    note IH = 1(1) and eq = 1(2)
    show ?case
    proof (cases "net (calls w)")
      case (Resolved v1)
      with eq show ?thesis by auto
    next
      case (Rejected e)
      show ?thesis
      proof (cases "\<not> str_includes (message e) ''No service with id'' \<and>
                     startsWith (message e) ''No valid session''")
        case True
        with Rejected eq have "cr bg net (send w) = Some y" by simp
        from IH[OF this] show ?thesis by auto
      next
        case False
        with Rejected eq show ?thesis
          by (auto split: if_splits option.splits list.splits)
      qed
    qed
  qed
  then show ?thesis by blast
qed

lemma waitForMigration_Returned:
  assumes ret: "waitForMigration bg net wanted w = Some (Returned (), w')"
  shows "calls w < calls w' \<and> reached wanted (net (calls w' - 1))"
proof -
  have "\<forall>w0. (Returned (), w') = (Returned (), w0) \<longrightarrow>
          calls w < calls w0 \<and> reached wanted (net (calls w0 - 1))"
  proof (rule waitForMigration.raw_induct
      [where P = "\<lambda>bg net wanted w y. \<forall>w0. y = (Returned (), w0) \<longrightarrow>
          calls w < calls w0 \<and> reached wanted (net (calls w0 - 1))", OF _ ret], goal_cases)
    case (1 wfm bg net wanted w y)
    note IH = 1(1) and eq = 1(2)
    from eq obtain r w1 where cr: "client_request bg net w = Some (r, w1)"
      and body: "(case r of
           Returned None \<Rightarrow> Some (Threw TypeError, w1)
         | Returned (Some migrationStatus) \<Rightarrow>
             if wanted \<le> revision migrationStatus \<and> hasBeenApplied migrationStatus
             then Some (Returned (), w1)
             else wfm bg net wanted (sleep 500 w1)
         | Threw f \<Rightarrow> Some (Threw f, w1)) = Some y"
      by (auto simp: bind_eq_Some_conv)
    show ?case
    proof (intro allI impI)
      fix w0 assume y: "y = (Returned (), w0)"
      show "calls w < calls w0 \<and> reached wanted (net (calls w0 - 1))"
      proof (cases r)
        case (Threw f)
        with body y show ?thesis by simp
      next
        case (Returned ov)
        show ?thesis
        proof (cases ov)
          case None
          with Returned body y show ?thesis by simp
        next
          case (Some ms)
          from cr Returned Some
          have "client_request bg net w = Some (Returned (Some ms), w1)" by simp
          from client_request_Returned_Some[OF this]
          have sent: "calls w < calls w1" "net (calls w1 - 1) = Resolved ms"
            by simp_all
          show ?thesis
          proof (cases "wanted \<le> revision ms \<and> hasBeenApplied ms")
            case True
            with body Returned Some y have "w0 = w1" by simp
            with sent True show ?thesis by (simp add: reached_def)
          next
            case False
            with body Returned Some have "wfm bg net wanted (sleep 500 w1) = Some y" by simp
            from IH[OF this] y sent show ?thesis by auto
          qed
        qed
      qed
    qed
  qed
  then show ?thesis by blast
qed

lemma waitForLocalDocker_Resolved:
  "is_response (net (calls w)) \<Longrightarrow>
   waitForLocalDocker net w = Some (Returned (), sleep 500 (send w))"
  by (subst waitForLocalDocker.simps) (cases "net (calls w)", simp_all add: is_response_def)

lemma waitForLocalDocker_Rejected:
  "\<not> is_response (net (calls w)) \<Longrightarrow>
   waitForLocalDocker net w = waitForLocalDocker net (sleep 500 (send w))"
  by (subst waitForLocalDocker.simps) (cases "net (calls w)", simp_all add: is_response_def)

lemma waitForLocalDocker_attempts:
  "\<lbrakk>\<forall>i<k. \<not> is_response (net (calls w + i)); is_response (net (calls w + k))\<rbrakk>
   \<Longrightarrow> waitForLocalDocker net w = Some (Returned (), attempts (Suc k) w)"
proof (induction k arbitrary: w)
  case 0
  then show ?case by (simp add: waitForLocalDocker_Resolved)
next
  case (Suc k)
  from Suc.prems(1)[rule_format, of 0]
  have first: "\<not> is_response (net (calls w))" by simp
  let ?w = "sleep 500 (send w)"
  have "\<forall>i<k. \<not> is_response (net (calls ?w + i))"
  proof (intro allI impI)
    fix i assume "i < k"
    then have "Suc i < Suc k" by simp
    from Suc.prems(1)[rule_format, OF this]
    show "\<not> is_response (net (calls ?w + i))" by simp
  qed
  moreover have "is_response (net (calls ?w + k))"
    using Suc.prems(2) by simp
  ultimately have "waitForLocalDocker net ?w = Some (Returned (), attempts (Suc k) ?w)"
    by (rule Suc.IH)
  with first show ?case
    by (simp add: waitForLocalDocker_Rejected)
qed

lemma attempts_calls: "calls (attempts k w) = calls w + k"
  by (induction k arbitrary: w) simp_all

lemma attempts_events:
  "events (attempts k w) = events w @ concat (replicate k [Requested, Waited 500])"
  by (induction k arbitrary: w) (simp_all add: send_def sleep_def)

lemma waitForLocalDocker_Some:
  assumes ret: "waitForLocalDocker net w = Some y"
  shows "fst y = Returned () \<and> calls w < calls (snd y) \<and>
         is_response (net (calls (snd y) - 1)) \<and>
         (\<forall>n. calls w \<le> n \<and> n < calls (snd y) - 1 \<longrightarrow> \<not> is_response (net n))"
proof (rule waitForLocalDocker.raw_induct
    [where P = "\<lambda>net w y. fst y = Returned () \<and> calls w < calls (snd y) \<and>
         is_response (net (calls (snd y) - 1)) \<and>
         (\<forall>n. calls w \<le> n \<and> n < calls (snd y) - 1 \<longrightarrow> \<not> is_response (net n))",
     OF _ ret], goal_cases)
  case (1 wld net w y)
  note IH = 1(1) and eq = 1(2)
  show ?case
  proof (cases "net (calls w)")
    case (Resolved v)
    with eq show ?thesis by (auto simp: is_response_def)
  next
    case (Rejected e)
    with eq have "wld net (sleep 500 (send w)) = Some y" by simp
    from IH[OF this]
    have ih: "fst y = Returned ()" "Suc (calls w) < calls (snd y)"
      "is_response (net (calls (snd y) - 1))"
      "\<forall>n. Suc (calls w) \<le> n \<and> n < calls (snd y) - 1 \<longrightarrow> \<not> is_response (net n)"
      by simp_all
    have "\<not> is_response (net n)" if "calls w \<le> n" "n < calls (snd y) - 1" for n
    proof (cases "n = calls w")
      case True
      with Rejected show ?thesis by (simp add: is_response_def)
    next
      case False
      with that have "Suc (calls w) \<le> n" by simp
      with ih(4) that show ?thesis by blast
    qed
    with ih show ?thesis by auto
  qed
qed

lemma polls_world:
  "polls k w = w\<lparr>calls := calls w + k + 1,
                  events := events w @ concat (replicate k [Requested, Waited 500]) @ [Requested]\<rparr>"
  by (rule world.equality) (simp_all add: polls_calls polls_events)

text \<open>
  C1. Started in any world with any target revision, on a script whose next \<open>k\<close>
  outcomes are responses that fail the test and whose outcome after them is a response
  that passes it, \<open>waitForMigration\<close> returns at that response: it has sent exactly
  \<open>k + 1\<close> requests, and its trace is \<open>k\<close> times a request followed by a wait of
  500 ms, then the last request, with no wait after it and no other event.
\<close>

theorem waitForMigration_first_reached:
  assumes "\<forall>i<k. is_response (net (calls w + i)) \<and> \<not> reached wanted (net (calls w + i))"
    and "reached wanted (net (calls w + k))"
  shows "waitForMigration bold_green net wanted w =
           Some (Returned (),
             w\<lparr>calls := calls w + k + 1,
               events := events w @ concat (replicate k [Requested, Waited 500]) @ [Requested]\<rparr>)"
  using waitForMigration_polls[OF assms] by (simp add: polls_world)

theorem waitForMigration_first_reached_witness:
  "reached 2 (applied_revisions (calls start + 2)) \<and>
   waitForMigration id applied_revisions 2 start =
     Some (Returned (),
       \<lparr>calls = 3, events = [Requested, Waited 500, Requested, Waited 500, Requested]\<rparr>)"
proof -
  have h1: "\<forall>i<2. is_response (applied_revisions (calls start + i)) \<and>
                  \<not> reached 2 (applied_revisions (calls start + i))"
    by (auto simp: is_response_def reached_def applied_revisions_def start_def)
  have h2: "reached 2 (applied_revisions (calls start + 2))"
    by (simp add: reached_def applied_revisions_def start_def)
  from waitForMigration_first_reached[OF h1 h2, of id] h2 show ?thesis
    by (simp add: start_def numeral_2_eq_2)
qed

text \<open>
  C5. On a script of responses only, \<open>waitForMigration\<close> never returns exactly when no
  response from the current request on passes the test (revision at least the target
  and \<open>hasBeenApplied\<close>): there is no bound on the number of polls and no timeout.
\<close>

theorem waitForMigration_terminates_iff:
  assumes "\<forall>n. is_response (net n)"
  shows "(waitForMigration bold_green net wanted w = None) \<longleftrightarrow>
         (\<forall>n\<ge>calls w. \<not> reached wanted (net n))"
proof
  assume none: "waitForMigration bold_green net wanted w = None"
  show "\<forall>n\<ge>calls w. \<not> reached wanted (net n)"
  proof (rule ccontr)
    assume "\<not> (\<forall>n\<ge>calls w. \<not> reached wanted (net n))"
    then obtain n where n: "calls w \<le> n" "reached wanted (net n)" by blast
    then have "\<exists>k. reached wanted (net (calls w + k))"
      by (metis le_Suc_ex)
    then obtain k where k: "reached wanted (net (calls w + k))"
      and least: "\<forall>i<k. \<not> reached wanted (net (calls w + i))"
      using exists_least_iff[of "\<lambda>k. reached wanted (net (calls w + k))"] by blast
    from least assms
    have "\<forall>i<k. is_response (net (calls w + i)) \<and> \<not> reached wanted (net (calls w + i))"
      by blast
    from waitForMigration_polls[OF this k] none show False by simp
  qed
next
  assume never: "\<forall>n\<ge>calls w. \<not> reached wanted (net n)"
  show "waitForMigration bold_green net wanted w = None"
  proof (cases "waitForMigration bold_green net wanted w")
    case None
    then show ?thesis .
  next
    case (Some y)
    from waitForMigration_returns_reached[OF this assms] never show ?thesis by blast
  qed
qed

theorem waitForMigration_terminates_iff_witness:
  "(\<forall>n. is_response (pending_revisions n)) \<and>
   waitForMigration id pending_revisions 1 start = None"
proof -
  have h: "\<forall>n. is_response (pending_revisions n)"
    by (simp add: is_response_def pending_revisions_def)
  have never: "\<forall>n\<ge>calls start. \<not> reached 1 (pending_revisions n)"
    by (simp add: reached_def pending_revisions_def start_def)
  from waitForMigration_terminates_iff[OF h, of id 1 start] h never show ?thesis
    by simp
qed

lemma client_request_rethrown:
  "\<lbrakk>net (calls w) = Rejected e;
    \<not> str_includes (message e) ''No service with id'';
    \<not> startsWith (message e) ''No valid session'';
    \<not> (str_includes (message e) ''ECONNREFUSED'' \<and>
       (str_includes (message e) ''localhost'' \<or> str_includes (message e) ''127.0.0.1''))\<rbrakk>
   \<Longrightarrow> client_request bold_green net w = Some (Threw (Raised e), send w)"
  by (subst client_request.simps) simp

lemma attempts_world:
  "attempts k w = w\<lparr>calls := calls w + k,
                     events := events w @ concat (replicate k [Requested, Waited 500])\<rparr>"
  by (rule world.equality) (simp_all add: attempts_calls attempts_events)

subsection \<open>The request wrapper\<close>

text \<open>
  C2. When the underlying request rejects with an exception whose message does not
  contain \<open>No service with id\<close>, does not start with \<open>No valid session\<close>, and does
  not contain \<open>ECONNREFUSED\<close> together with \<open>localhost\<close> or \<open>127.0.0.1\<close>, the
  wrapper throws that very exception to its caller, having sent the one request and
  written no hint.
\<close>

theorem client_request_rethrows:
  assumes "net (calls w) = Rejected e"
    and "\<not> str_includes (message e) ''No service with id''"
    and "\<not> startsWith (message e) ''No valid session''"
    and "\<not> (str_includes (message e) ''ECONNREFUSED'' \<and>
            (str_includes (message e) ''localhost'' \<or> str_includes (message e) ''127.0.0.1''))"
  shows "client_request bold_green net w = Some (Threw (Raised e), send w)"
  using assms by (subst client_request.simps) simp

theorem client_request_rethrows_witness:
  "rejecting boom (calls start) = (Rejected boom :: nat outcome) \<and>
   \<not> str_includes (message boom) ''No service with id'' \<and>
   \<not> startsWith (message boom) ''No valid session'' \<and>
   \<not> (str_includes (message boom) ''ECONNREFUSED'' \<and>
      (str_includes (message boom) ''localhost'' \<or> str_includes (message boom) ''127.0.0.1'')) \<and>
   client_request id (rejecting boom :: nat \<Rightarrow> nat outcome) start =
     Some (Threw (Raised boom), \<lparr>calls = 1, events = [Requested]\<rparr>)"
proof -
  have h1: "rejecting boom (calls start) = (Rejected boom :: nat outcome)"
    by (simp add: rejecting_def)
  have h2: "\<not> str_includes (message boom) ''No service with id''"
    by (simp add: boom_def)
  have h3: "\<not> startsWith (message boom) ''No valid session''"
    by (simp add: boom_def)
  have h4: "\<not> (str_includes (message boom) ''ECONNREFUSED'' \<and>
      (str_includes (message boom) ''localhost'' \<or> str_includes (message boom) ''127.0.0.1''))"
    by (simp add: boom_def)
  from client_request_rethrows
         [where net = "rejecting boom :: nat \<Rightarrow> nat outcome" and w = start and e = boom
            and bold_green = id, OF h1 h2 h3 h4]
    h1 h2 h3 h4 show ?thesis
    by (simp add: start_def send_def)
qed

text \<open>
  C3, as stated, fails on the branch for \<open>No valid session\<close>: the wrapper writes no
  hint there. It sends the request again, and when the second attempt resolves the
  caller gets its value; the trace holds two requests and nothing else.
\<close>

theorem session_retry_counterexample:
  "startsWith (message expired_session) ''No valid session'' \<and>
   client_request id (rejecting_once expired_session (42::nat)) start =
     Some (Returned (Some 42), \<lparr>calls = 2, events = [Requested, Requested]\<rparr>)"
proof -
  have m: "startsWith (message expired_session) ''No valid session''"
    "\<not> str_includes (message expired_session) ''No service with id''"
    by (simp_all add: expired_session_def)
  have "client_request id (rejecting_once expired_session (42::nat)) start =
        client_request id (rejecting_once expired_session (42::nat)) (send start)"
    using m by (subst client_request.simps) (simp add: rejecting_once_def start_def)
  also have "\<dots> = Some (Returned (Some 42), send (send start))"
    by (subst client_request.simps) (simp add: rejecting_once_def)
  finally show ?thesis using m by (simp add: send_def start_def)
qed

text \<open>
  C3, amended. For an exception of the underlying request: when its message contains
  \<open>No service with id\<close> and it carries a non-empty \<open>response.errors\<close>, the wrapper
  writes the first error's message followed by the advice to check the account, and
  returns \<open>undefined\<close> instead of throwing; when its message matches neither of the
  first two patterns and contains \<open>ECONNREFUSED\<close> with \<open>localhost\<close> or
  \<open>127.0.0.1\<close>, the wrapper writes the hint to start the local cluster and returns
  \<open>undefined\<close>; when its message starts with \<open>No valid session\<close> (and does not
  contain \<open>No service with id\<close>), the wrapper writes nothing and behaves as the same
  request sent again.
\<close>

theorem client_request_matched:
  assumes "net (calls w) = Rejected e"
  shows "(str_includes (message e) ''No service with id'' \<and> response_errors e = Some (m # ms) \<longrightarrow>
            client_request bold_green net w =
              Some (Returned None,
                out_error (m @ '' Please check if you are logged in to the right account.'')
                  (send w))) \<and>
         (\<not> str_includes (message e) ''No service with id'' \<and>
          \<not> startsWith (message e) ''No valid session'' \<and>
          str_includes (message e) ''ECONNREFUSED'' \<and>
          (str_includes (message e) ''localhost'' \<or> str_includes (message e) ''127.0.0.1'') \<longrightarrow>
            client_request bold_green net w =
              Some (Returned None,
                out_error (''Could not connect to local cluster. Please use '' @
                           bold_green ''graphcool local up'' @
                           '' to start your local Graphcool cluster.'')
                  (send w))) \<and>
         (\<not> str_includes (message e) ''No service with id'' \<and>
          startsWith (message e) ''No valid session'' \<longrightarrow>
            client_request bold_green net w = client_request bold_green net (send w))"
proof (intro conjI impI)
  assume "str_includes (message e) ''No service with id'' \<and> response_errors e = Some (m # ms)"
  with assms show "client_request bold_green net w =
      Some (Returned None,
        out_error (m @ '' Please check if you are logged in to the right account.'') (send w))"
    by (subst client_request.simps) simp
next
  assume "\<not> str_includes (message e) ''No service with id'' \<and>
          \<not> startsWith (message e) ''No valid session'' \<and>
          str_includes (message e) ''ECONNREFUSED'' \<and>
          (str_includes (message e) ''localhost'' \<or> str_includes (message e) ''127.0.0.1'')"
  with assms show "client_request bold_green net w =
      Some (Returned None,
        out_error (''Could not connect to local cluster. Please use '' @
                   bold_green ''graphcool local up'' @
                   '' to start your local Graphcool cluster.'') (send w))"
    by (subst client_request.simps) simp
next
  assume "\<not> str_includes (message e) ''No service with id'' \<and>
          startsWith (message e) ''No valid session''"
  with assms show "client_request bold_green net w = client_request bold_green net (send w)"
    by (subst client_request.simps) simp
qed

theorem client_request_matched_witness:
  "client_request id (rejecting unknown_service :: nat \<Rightarrow> nat outcome) start =
     Some (Returned None,
       \<lparr>calls = 1,
        events = [Requested,
          Hinted ''Not found. Please check if you are logged in to the right account.'']\<rparr>) \<and>
   client_request id (rejecting refused :: nat \<Rightarrow> nat outcome) start =
     Some (Returned None,
       \<lparr>calls = 1,
        events = [Requested,
          Hinted (''Could not connect to local cluster. Please use graphcool local up'' @
                  '' to start your local Graphcool cluster.'')]\<rparr>) \<and>
   client_request id (rejecting_once expired_session (42::nat)) start =
     client_request id (rejecting_once expired_session (42::nat)) \<lparr>calls = 1, events = [Requested]\<rparr>"
proof -
  have a: "rejecting unknown_service (calls start) = (Rejected unknown_service :: nat outcome)"
    and b: "rejecting refused (calls start) = (Rejected refused :: nat outcome)"
    and c: "rejecting_once expired_session (42::nat) (calls start) = Rejected expired_session"
    by (simp_all add: rejecting_def rejecting_once_def start_def)
  have ha: "str_includes (message unknown_service) ''No service with id'' \<and>
            response_errors unknown_service = Some (''Not found.'' # [])"
    by (simp add: unknown_service_def)
  have hb: "\<not> str_includes (message refused) ''No service with id'' \<and>
            \<not> startsWith (message refused) ''No valid session'' \<and>
            str_includes (message refused) ''ECONNREFUSED'' \<and>
            (str_includes (message refused) ''localhost'' \<or>
             str_includes (message refused) ''127.0.0.1'')"
    by (simp add: refused_def)
  have hc: "\<not> str_includes (message expired_session) ''No service with id'' \<and>
            startsWith (message expired_session) ''No valid session''"
    by (simp add: expired_session_def)
  from client_request_matched
         [where net = "rejecting unknown_service :: nat \<Rightarrow> nat outcome" and w = start
            and e = unknown_service and bold_green = id and m = "''Not found.''" and ms = "[]",
          OF a] ha
  have 1: "client_request id (rejecting unknown_service :: nat \<Rightarrow> nat outcome) start =
     Some (Returned None,
       out_error (''Not found.'' @ '' Please check if you are logged in to the right account.'')
         (send start))"
    by blast
  from client_request_matched
         [where net = "rejecting refused :: nat \<Rightarrow> nat outcome" and w = start
            and e = refused and bold_green = id, OF b] hb
  have 2: "client_request id (rejecting refused :: nat \<Rightarrow> nat outcome) start =
     Some (Returned None,
       out_error (''Could not connect to local cluster. Please use '' @
                  id ''graphcool local up'' @
                  '' to start your local Graphcool cluster.'') (send start))"
    by blast
  from client_request_matched
         [where net = "rejecting_once expired_session (42::nat)" and w = start
            and e = expired_session and bold_green = id, OF c] hc
  have 3: "client_request id (rejecting_once expired_session (42::nat)) start =
           client_request id (rejecting_once expired_session (42::nat)) (send start)"
    by blast
  have s: "send start = \<lparr>calls = 1, events = [Requested]\<rparr>"
    by (simp add: send_def start_def)
  from 1 2 3 show ?thesis
    unfolding s by (simp add: out_error_def)
qed

subsection \<open>Leaving the wait loops\<close>

text \<open>
  C4, as stated, fails for \<open>waitForMigration\<close>: a request that throws an exception
  the wrapper passes on ends the loop after that one request.
\<close>

theorem waitForMigration_exits_on_error_counterexample:
  "waitForMigration id (rejecting boom) 1 start =
     Some (Threw (Raised boom), \<lparr>calls = 1, events = [Requested]\<rparr>)"
proof -
  have "client_request id (rejecting boom :: nat \<Rightarrow> migration_status outcome) start =
          Some (Threw (Raised boom), send start)"
    by (rule client_request_rethrown) (simp_all add: rejecting_def boom_def)
  then show ?thesis
    by (subst waitForMigration.simps) (simp add: send_def start_def)
qed

text \<open>
  C4, amended. \<open>waitForLocalDocker\<close> never exits on an error: a request that is
  rejected is followed by the wait of 500 ms and the loop again, a request that resolves
  is followed by the wait of 500 ms and the return, so that after \<open>k\<close> rejected requests
  and one resolved the loop returns normally with \<open>k + 1\<close> requests, each followed by
  its wait, in the trace. Whenever it returns, it returns normally, the last request it
  sent resolved and every request before it was rejected; and on a script that rejects
  every request from now on it never returns.
  \<open>waitForMigration\<close> returns at once on a response passing the revision-and-applied
  test, waits 500 ms and polls again on a response failing it, and returns normally only
  when the last request it sent resolved with a status passing the test; but it has no
  \<open>try\<close>, and an exception of the polled request that the wrapper passes on ends the
  loop and is thrown to the caller.
\<close>

theorem wait_loops_exits:
  "(\<not> is_response (net (calls w)) \<longrightarrow>
      waitForLocalDocker net w = waitForLocalDocker net (sleep 500 (send w))) \<and>
   (is_response (net (calls w)) \<longrightarrow>
      waitForLocalDocker net w = Some (Returned (), sleep 500 (send w))) \<and>
   ((\<forall>i<k. \<not> is_response (net (calls w + i))) \<and> is_response (net (calls w + k)) \<longrightarrow>
      waitForLocalDocker net w =
        Some (Returned (),
          w\<lparr>calls := calls w + Suc k,
            events := events w @ concat (replicate (Suc k) [Requested, Waited 500])\<rparr>)) \<and>
   (waitForLocalDocker net w = Some (r, w') \<longrightarrow>
      r = Returned () \<and> calls w < calls w' \<and> is_response (net (calls w' - 1)) \<and>
      (\<forall>n. calls w \<le> n \<and> n < calls w' - 1 \<longrightarrow> \<not> is_response (net n))) \<and>
   ((\<forall>n\<ge>calls w. \<not> is_response (net n)) \<longrightarrow> waitForLocalDocker net w = None) \<and>
   (reached wanted (mnet (calls w)) \<longrightarrow>
      waitForMigration bold_green mnet wanted w = Some (Returned (), send w)) \<and>
   (is_response (mnet (calls w)) \<and> \<not> reached wanted (mnet (calls w)) \<longrightarrow>
      waitForMigration bold_green mnet wanted w =
      waitForMigration bold_green mnet wanted (sleep 500 (send w))) \<and>
   (waitForMigration bold_green mnet wanted w = Some (Returned (), w') \<longrightarrow>
      calls w < calls w' \<and> reached wanted (mnet (calls w' - 1))) \<and>
   (mnet (calls w) = Rejected e \<and>
    \<not> str_includes (message e) ''No service with id'' \<and>
    \<not> startsWith (message e) ''No valid session'' \<and>
    \<not> (str_includes (message e) ''ECONNREFUSED'' \<and>
       (str_includes (message e) ''localhost'' \<or> str_includes (message e) ''127.0.0.1'')) \<longrightarrow>
      waitForMigration bold_green mnet wanted w = Some (Threw (Raised e), send w))"
proof -
  have docker_again:
    "waitForLocalDocker net w = waitForLocalDocker net (sleep 500 (send w))"
    if "\<not> is_response (net (calls w))"
    using that by (rule waitForLocalDocker_Rejected)
  have docker_done: "waitForLocalDocker net w = Some (Returned (), sleep 500 (send w))"
    if "is_response (net (calls w))"
    using that by (rule waitForLocalDocker_Resolved)
  have docker_after:
    "waitForLocalDocker net w =
       Some (Returned (),
         w\<lparr>calls := calls w + Suc k,
           events := events w @ concat (replicate (Suc k) [Requested, Waited 500])\<rparr>)"
    if "(\<forall>i<k. \<not> is_response (net (calls w + i))) \<and> is_response (net (calls w + k))"
  proof -
    from that have "waitForLocalDocker net w = Some (Returned (), attempts (Suc k) w)"
      by (intro waitForLocalDocker_attempts) simp_all
    then show ?thesis by (simp only: attempts_world)
  qed
  have docker: "r = Returned () \<and> calls w < calls w' \<and> is_response (net (calls w' - 1)) \<and>
      (\<forall>n. calls w \<le> n \<and> n < calls w' - 1 \<longrightarrow> \<not> is_response (net n))"
    if ret: "waitForLocalDocker net w = Some (r, w')"
    using waitForLocalDocker_Some[OF ret] by simp
  have docker_never: "waitForLocalDocker net w = None"
    if never: "\<forall>n\<ge>calls w. \<not> is_response (net n)"
  proof (cases "waitForLocalDocker net w")
    case None
    then show ?thesis .
  next
    case (Some y)
    from waitForLocalDocker_Some[OF this]
    have "calls w < calls (snd y)" "is_response (net (calls (snd y) - 1))" by simp_all
    moreover from this(1) have "calls w \<le> calls (snd y) - 1" by simp
    ultimately show ?thesis using never by blast
  qed
  have migration_done:
    "waitForMigration bold_green mnet wanted w = Some (Returned (), send w)"
    if "reached wanted (mnet (calls w))"
    using that by (rule waitForMigration_reached)
  have migration_again:
    "waitForMigration bold_green mnet wanted w =
     waitForMigration bold_green mnet wanted (sleep 500 (send w))"
    if "is_response (mnet (calls w)) \<and> \<not> reached wanted (mnet (calls w))"
    using that by (intro waitForMigration_again) simp_all
  have migration: "calls w < calls w' \<and> reached wanted (mnet (calls w' - 1))"
    if "waitForMigration bold_green mnet wanted w = Some (Returned (), w')"
    using that by (rule waitForMigration_Returned)
  have migration_throws:
    "waitForMigration bold_green mnet wanted w = Some (Threw (Raised e), send w)"
    if "mnet (calls w) = Rejected e \<and>
        \<not> str_includes (message e) ''No service with id'' \<and>
        \<not> startsWith (message e) ''No valid session'' \<and>
        \<not> (str_includes (message e) ''ECONNREFUSED'' \<and>
           (str_includes (message e) ''localhost'' \<or> str_includes (message e) ''127.0.0.1''))"
  proof -
    from that have "client_request bold_green mnet w = Some (Threw (Raised e), send w)"
      by (intro client_request_rethrown) simp_all
    then show ?thesis
      by (subst waitForMigration.simps) simp
  qed
  from docker_again docker_done docker_after docker docker_never
       migration_done migration_again migration migration_throws
  show ?thesis
    by (intro conjI impI) blast+
qed

theorem wait_loops_exits_witness:
  "waitForLocalDocker (rejecting_once boom (0::nat)) start =
     waitForLocalDocker (rejecting_once boom (0::nat))
       \<lparr>calls = 1, events = [Requested, Waited 500]\<rparr> \<and>
   waitForLocalDocker (resolving (0::nat)) start =
     Some (Returned (), \<lparr>calls = 1, events = [Requested, Waited 500]\<rparr>) \<and>
   waitForLocalDocker (rejecting_once boom (0::nat)) start =
     Some (Returned (), \<lparr>calls = 2, events = [Requested, Waited 500, Requested, Waited 500]\<rparr>) \<and>
   is_response (rejecting_once boom (0::nat) 1) \<and>
   waitForLocalDocker (rejecting boom :: nat \<Rightarrow> nat outcome) start = None \<and>
   waitForMigration id applied_revisions 0 start =
     Some (Returned (), \<lparr>calls = 1, events = [Requested]\<rparr>) \<and>
   waitForMigration id applied_revisions 1 start =
     waitForMigration id applied_revisions 1 \<lparr>calls = 1, events = [Requested, Waited 500]\<rparr> \<and>
   waitForMigration id applied_revisions 1 start =
     Some (Returned (), \<lparr>calls = 2, events = [Requested, Waited 500, Requested]\<rparr>) \<and>
   reached 1 (applied_revisions 1) \<and>
   waitForMigration id (rejecting boom) 1 start =
     Some (Threw (Raised boom), \<lparr>calls = 1, events = [Requested]\<rparr>)"
proof -
  let ?w2 = "\<lparr>calls = 2, events = [Requested, Waited 500, Requested, Waited 500]\<rparr>"
  let ?w1 = "\<lparr>calls = 2, events = [Requested, Waited 500, Requested]\<rparr>"
  let ?once = "rejecting_once boom (0::nat)"
  let ?never = "rejecting boom :: nat \<Rightarrow> nat outcome"
  have s1: "sleep 500 (send start) = \<lparr>calls = 1, events = [Requested, Waited 500]\<rparr>"
    and s0: "send start = \<lparr>calls = 1, events = [Requested]\<rparr>"
    by (simp_all add: sleep_def send_def start_def)
  have once0: "\<not> is_response (?once (calls start))"
    and once: "(\<forall>i<Suc 0. \<not> is_response (?once (calls start + i))) \<and>
               is_response (?once (calls start + Suc 0))"
    and now: "is_response (resolving (0::nat) (calls start))"
    and never: "\<forall>n\<ge>calls start. \<not> is_response (?never n)"
    by (simp_all add: is_response_def rejecting_once_def rejecting_def resolving_def start_def)
  have reached0: "reached 0 (applied_revisions (calls start))"
    and pending: "is_response (applied_revisions (calls start)) \<and>
                  \<not> reached 1 (applied_revisions (calls start))"
    by (simp_all add: is_response_def reached_def applied_revisions_def start_def)
  have migration: "waitForMigration id applied_revisions 1 start = Some (Returned (), ?w1)"
    using waitForMigration_polls[of "Suc 0" applied_revisions start 1 id]
    by (simp add: polls_world is_response_def reached_def applied_revisions_def start_def)
  have thrown: "rejecting boom (calls start) = (Rejected boom :: migration_status outcome) \<and>
        \<not> str_includes (message boom) ''No service with id'' \<and>
        \<not> startsWith (message boom) ''No valid session'' \<and>
        \<not> (str_includes (message boom) ''ECONNREFUSED'' \<and>
           (str_includes (message boom) ''localhost'' \<or> str_includes (message boom) ''127.0.0.1''))"
    by (simp add: rejecting_def boom_def)
  note inst = wait_loops_exits[where w = start and bold_green = id and e = boom
                and r = "Returned ()" and k = "Suc 0"]
  note docker_inst = inst[where mnet = "rejecting boom" and wanted = 1 and w' = ?w2]
  from docker_inst[where net = ?once] once0
  have a: "waitForLocalDocker ?once start = waitForLocalDocker ?once (sleep 500 (send start))"
    by blast
  from docker_inst[where net = "resolving (0::nat)"] now
  have b: "waitForLocalDocker (resolving (0::nat)) start =
             Some (Returned (), sleep 500 (send start))"
    by blast
  from docker_inst[where net = ?once] once
  have "waitForLocalDocker ?once start =
          Some (Returned (),
            start\<lparr>calls := calls start + Suc (Suc 0),
              events := events start @
                concat (replicate (Suc (Suc 0)) [Requested, Waited 500])\<rparr>)"
    by blast
  then have c: "waitForLocalDocker ?once start = Some (Returned (), ?w2)"
    by (simp add: start_def)
  from docker_inst[where net = ?once] c
  have d: "is_response (?once 1)" by simp
  from docker_inst[where net = ?never] never
  have e: "waitForLocalDocker ?never start = None" by blast
  from inst[where net = ?never and mnet = applied_revisions and wanted = 0 and w' = ?w1] reached0
  have f: "waitForMigration id applied_revisions 0 start = Some (Returned (), send start)"
    by blast
  note migration_inst =
    inst[where net = ?never and mnet = applied_revisions and wanted = 1 and w' = ?w1]
  from migration_inst pending
  have g: "waitForMigration id applied_revisions 1 start =
           waitForMigration id applied_revisions 1 (sleep 500 (send start))"
    by blast
  from migration_inst migration
  have h: "reached 1 (applied_revisions 1)" by simp
  from inst[where net = ?never and mnet = "rejecting boom" and wanted = 1 and w' = ?w1] thrown
  have i: "waitForMigration id (rejecting boom) 1 start = Some (Threw (Raised boom), send start)"
    by blast
  note facts = a[unfolded s1] b[unfolded s1] c d e f[unfolded s0] g[unfolded s1]
    migration h i[unfolded s0]
  show ?thesis
    by (intro conjI) (rule facts)+
qed

subsection \<open>Pass-through queries\<close>

text \<open>
  C6. When the request resolves, \<open>listProjects\<close> returns the \<open>listProjects\<close> array of
  the response as it is, and \<open>getPats\<close> returns the \<open>node\<close> of each edge of
  \<open>permanentAuthTokens.edges\<close>, in the order received; the records themselves are
  handed on whole, so no field is altered, added or removed.
\<close>

theorem passthrough:
  "(net (calls w) = Resolved payload \<longrightarrow>
      listProjects bold_green net w = Some (Returned (payload_listProjects payload), send w)) \<and>
   (pnet (calls w) = Resolved ppayload \<and> permanentAuthTokens ppayload = Some tokens \<longrightarrow>
      getPats bold_green pnet w = Some (Returned (map node (edges tokens)), send w))"
  by (simp add: listProjects_def getPats_def destructure_def client_request_Resolved)

theorem passthrough_witness:
  "listProjects id
     (resolving \<lparr>payload_listProjects =
        [\<lparr>project_name = ''blog'', project_stage = ''dev''\<rparr>,
         \<lparr>project_name = ''blog'', project_stage = ''prod''\<rparr>]\<rparr>) start =
     Some (Returned [\<lparr>project_name = ''blog'', project_stage = ''dev''\<rparr>,
                     \<lparr>project_name = ''blog'', project_stage = ''prod''\<rparr>],
           \<lparr>calls = 1, events = [Requested]\<rparr>) \<and>
   getPats id
     (resolving \<lparr>permanentAuthTokens = Some \<lparr>edges =
        [\<lparr>node = \<lparr>pat_id = ''p2'', pat_name = ''ci'', pat_token = ''t2''\<rparr>\<rparr>,
         \<lparr>node = \<lparr>pat_id = ''p1'', pat_name = ''dev'', pat_token = ''t1''\<rparr>\<rparr>]\<rparr>\<rparr>) start =
     Some (Returned [\<lparr>pat_id = ''p2'', pat_name = ''ci'', pat_token = ''t2''\<rparr>,
                     \<lparr>pat_id = ''p1'', pat_name = ''dev'', pat_token = ''t1''\<rparr>],
           \<lparr>calls = 1, events = [Requested]\<rparr>)"
proof -
  let ?projects = "[\<lparr>project_name = ''blog'', project_stage = ''dev''\<rparr>,
                    \<lparr>project_name = ''blog'', project_stage = ''prod''\<rparr>]"
  let ?tokens = "\<lparr>edges =
        [\<lparr>node = \<lparr>pat_id = ''p2'', pat_name = ''ci'', pat_token = ''t2''\<rparr>\<rparr>,
         \<lparr>node = \<lparr>pat_id = ''p1'', pat_name = ''dev'', pat_token = ''t1''\<rparr>\<rparr>]\<rparr>"
  note inst = passthrough
     [where net = "resolving \<lparr>payload_listProjects = ?projects\<rparr>"
        and payload = "\<lparr>payload_listProjects = ?projects\<rparr>"
        and pnet = "resolving \<lparr>permanentAuthTokens = Some ?tokens\<rparr>"
        and ppayload = "\<lparr>permanentAuthTokens = Some ?tokens\<rparr>"
        and tokens = ?tokens and w = start and bold_green = id]
  then show ?thesis
    by (simp add: resolving_def send_def start_def)
qed

subsection \<open>\<open>getCluster\<close>\<close>

lemma getCluster_loop_found:
  "getCluster_loop net name stage clusters foundClusters w =
     (foundClusters @
        [c. (c, i) \<leftarrow> zip clusters [calls w..<calls w + length clusters],
            has_project (getClient net c name stage i)],
      w\<lparr>calls := calls w + length clusters,
        events := events w @ replicate (length clusters) Requested\<rparr>)"
proof (induction clusters arbitrary: foundClusters w)
  case Nil
  then show ?case by simp
next
  case (Cons c cs)
  have upt: "[calls w..<calls w + length (c # cs)] =
             calls w # [calls (send w)..<calls (send w) + length cs]"
  proof -
    have "[calls w..<calls w + Suc (length cs)] =
          calls w # [Suc (calls w)..<calls w + Suc (length cs)]"
      by (rule upt_conv_Cons) simp
    then show ?thesis by (simp add: send_def)
  qed
  show ?case
    unfolding upt
    by (cases "getClient net c name stage (calls w)")
       (simp_all add: Cons.IH has_project_def send_def split: option.splits)
qed

text \<open>
  \<open>join\<close> written without recursion on the rest: the first element, then every other
  element behind a separator. Every element is a contiguous part of the joined string.
\<close>

lemma join_concat:
  "join sep xs = (case xs of [] \<Rightarrow> [] | x # ys \<Rightarrow> x @ concat (map (\<lambda>y. sep @ y) ys))"
  by (induction sep xs rule: join.induct) simp_all

lemma str_includes_append: "str_includes (a @ p @ b) p"
  by (simp add: str_includes_sublist)

lemma str_includes_trans:
  "str_includes s p \<Longrightarrow> str_includes t s \<Longrightarrow> str_includes t p"
  unfolding str_includes_sublist by (rule sublist_order.order.trans)

lemma str_includes_join: "x \<in> set xs \<Longrightarrow> str_includes (join sep xs) x"
proof (induction sep xs rule: join.induct)
  case (1 sep)
  then show ?case by simp
next
  case (2 sep y)
  then show ?case by (simp add: str_includes_sublist)
next
  case (3 sep y z zs)
  show ?case
  proof (cases "x = y")
    case True
    have "str_includes ([] @ y @ (sep @ join sep (z # zs))) y"
      by (rule str_includes_append)
    with True show ?thesis by simp
  next
    case False
    with 3 have "str_includes (join sep (z # zs)) x" by simp
    moreover have "str_includes ((y @ sep) @ join sep (z # zs) @ []) (join sep (z # zs))"
      by (rule str_includes_append)
    ultimately have "str_includes ((y @ sep) @ join sep (z # zs) @ []) x"
      by (rule str_includes_trans)
    then show ?thesis by simp
  qed
qed

lemma ambiguous_message_names:
  assumes "c \<in> set foundClusters"
  shows "str_includes (ambiguous_message name stage foundClusters) (cluster_name c)"
proof -
  let ?names = "join '', '' (map cluster_name foundClusters)"
  let ?head = "''The service name / stage combination '' @ [CHR 0x22] @ name @ ''@'' @ stage @
               [CHR 0x22] @ '' is ambigious. It exists in clusters ''"
  from assms have "str_includes ?names (cluster_name c)"
    by (intro str_includes_join) simp
  moreover have "str_includes (?head @ ?names @ []) ?names"
    by (rule str_includes_append)
  ultimately have "str_includes (?head @ ?names @ []) (cluster_name c)"
    by (rule str_includes_trans)
  then show ?thesis by (simp add: ambiguous_message_def)
qed

text \<open>
  C8. \<open>getCluster\<close> sends one request per configured cluster, in order, each to that
  cluster's own endpoint with its token; the clusters that report the project are those
  whose request resolved with a project, a cluster whose request threw counting as not
  having it. With exactly one such cluster it returns that cluster, with none it returns
  \<open>null\<close>, and with more than one it throws the error whose message is the fixed
  sentence with \<open>name@stage\<close> in quotes followed by the names of those clusters, the
  first as it is and every further one behind a comma and a space, so that the message
  contains the name of each of them. The only trace it leaves is the requests
  themselves: no wait and no hint.
\<close>

theorem getCluster_result:
  "(let found = [c. (c, i) \<leftarrow> zip clusters [calls w..<calls w + length clusters],
                    has_project (getClient net c name stage i)];
        msg = ''The service name / stage combination '' @ [CHR 0x22] @ name @ ''@'' @ stage @
              [CHR 0x22] @ '' is ambigious. It exists in clusters '' @
              (case map cluster_name found of
                 [] \<Rightarrow> []
               | n # ns \<Rightarrow> n @ concat (map (\<lambda>m. '', '' @ m) ns))
    in getCluster net clusters name stage w =
         (if length found = 1 then Returned (Some (hd found))
          else if length found = 0 then Returned None
          else Threw (Error msg),
          w\<lparr>calls := calls w + length clusters,
            events := events w @ replicate (length clusters) Requested\<rparr>) \<and>
       (\<forall>c\<in>set found. str_includes msg (cluster_name c)))"
proof -
  define found where
    "found = [c. (c, i) \<leftarrow> zip clusters [calls w..<calls w + length clusters],
                 has_project (getClient net c name stage i)]"
  define msg where
    "msg = ''The service name / stage combination '' @ [CHR 0x22] @ name @ ''@'' @ stage @
           [CHR 0x22] @ '' is ambigious. It exists in clusters '' @
           (case map cluster_name found of
              [] \<Rightarrow> []
            | n # ns \<Rightarrow> n @ concat (map (\<lambda>m. '', '' @ m) ns))"
  have msg: "ambiguous_message name stage found = msg"
    unfolding ambiguous_message_def msg_def
    by (subst join_concat) (rule refl)
  have loop: "getCluster_loop net name stage clusters [] w =
     (found, w\<lparr>calls := calls w + length clusters,
               events := events w @ replicate (length clusters) Requested\<rparr>)"
    by (simp add: getCluster_loop_found found_def)
  have result: "getCluster net clusters name stage w =
     (if length found = 1 then Returned (Some (hd found))
      else if length found = 0 then Returned None
      else Threw (Error msg),
      w\<lparr>calls := calls w + length clusters,
        events := events w @ replicate (length clusters) Requested\<rparr>)"
  proof -
    have raw: "getCluster net clusters name stage w =
      (if length found = 1 then Returned (Some (found ! 0))
       else if length found > 1 then Threw (Error msg)
       else Returned None,
       w\<lparr>calls := calls w + length clusters,
         events := events w @ replicate (length clusters) Requested\<rparr>)"
      by (simp add: getCluster_def loop msg)
    show ?thesis
    proof (cases found)
      case Nil
      with raw show ?thesis by simp
    next
      case (Cons c cs)
      with raw show ?thesis by (cases cs) simp_all
    qed
  qed
  have names: "\<forall>c\<in>set found. str_includes msg (cluster_name c)"
    using ambiguous_message_names[of _ found name stage] by (simp add: msg)
  from result names show ?thesis
    unfolding Let_def found_def [symmetric] msg_def [symmetric]
    by (rule conjI)
qed

theorem getCluster_result_witness:
  "getCluster cluster_answers [local_cluster, eu_cluster, staging_cluster, us_cluster]
     ''blog'' ''dev'' start =
     (Threw (Error (''The service name / stage combination '' @ [CHR 0x22] @ ''blog@dev'' @
                    [CHR 0x22] @ '' is ambigious. It exists in clusters local, shared-us'')),
      \<lparr>calls = 4, events = [Requested, Requested, Requested, Requested]\<rparr>) \<and>
   str_includes (''The service name / stage combination '' @ [CHR 0x22] @ ''blog@dev'' @
                 [CHR 0x22] @ '' is ambigious. It exists in clusters local, shared-us'')
     (cluster_name us_cluster) \<and>
   getCluster cluster_answers [eu_cluster, staging_cluster, us_cluster] ''blog'' ''dev'' start =
     (Returned (Some us_cluster), \<lparr>calls = 3, events = [Requested, Requested, Requested]\<rparr>) \<and>
   getCluster cluster_answers [eu_cluster, staging_cluster] ''blog'' ''dev'' start =
     (Returned None, \<lparr>calls = 2, events = [Requested, Requested]\<rparr>)"
proof -
  note defs = Let_def has_project_def getClient_def cluster_answers_def start_def
    local_cluster_def eu_cluster_def staging_cluster_def us_cluster_def upt_rec
  note inst = getCluster_result[where net = cluster_answers and name = "''blog''"
                and stage = "''dev''" and w = start]
  have many:
    "getCluster cluster_answers [local_cluster, eu_cluster, staging_cluster, us_cluster]
       ''blog'' ''dev'' start =
       (Threw (Error (''The service name / stage combination '' @ [CHR 0x22] @ ''blog@dev'' @
                      [CHR 0x22] @ '' is ambigious. It exists in clusters local, shared-us'')),
        \<lparr>calls = 4, events = [Requested, Requested, Requested, Requested]\<rparr>)"
    and named:
    "str_includes (''The service name / stage combination '' @ [CHR 0x22] @ ''blog@dev'' @
                   [CHR 0x22] @ '' is ambigious. It exists in clusters local, shared-us'')
       (cluster_name us_cluster)"
    using inst[where clusters = "[local_cluster, eu_cluster, staging_cluster, us_cluster]"]
    by (simp_all add: defs)
  have one:
    "getCluster cluster_answers [eu_cluster, staging_cluster, us_cluster] ''blog'' ''dev'' start =
       (Returned (Some us_cluster), \<lparr>calls = 3, events = [Requested, Requested, Requested]\<rparr>)"
    using inst[where clusters = "[eu_cluster, staging_cluster, us_cluster]"]
    by (simp add: defs)
  have none:
    "getCluster cluster_answers [eu_cluster, staging_cluster] ''blog'' ''dev'' start =
       (Returned None, \<lparr>calls = 2, events = [Requested, Requested]\<rparr>)"
    using inst[where clusters = "[eu_cluster, staging_cluster]"]
    by (simp add: defs)
  from many named one none show ?thesis by simp
qed

subsection \<open>\<open>normalizeName\<close> and \<open>getFunction\<close>\<close>

lemma is_space_lower_char: "is_space (lower_char c) = is_space c"
proof -
  have bound: "of_char c < (256::nat)" by simp
  show ?thesis
    using bound unfolding lower_char_def is_space_def Let_def
    by (auto simp: of_char_of [where ?'a = nat])
qed

lemma lower_char_idem: "lower_char (lower_char c) = lower_char c"
proof -
  have bound: "of_char c < (256::nat)" by simp
  show ?thesis
    using bound unfolding lower_char_def Let_def
    by (auto simp: of_char_of [where ?'a = nat])
qed

lemma toLowerCase_idem: "toLowerCase (toLowerCase s) = toLowerCase s"
  by (simp add: toLowerCase_def lower_char_idem)

lemma toLowerCase_spaces: "list_all is_space s \<Longrightarrow> list_all is_space (toLowerCase s)"
  by (simp add: toLowerCase_def list_all_iff is_space_lower_char)

lemma dropWhile_spaces:
  "list_all is_space pre \<Longrightarrow> dropWhile is_space (pre @ xs) = dropWhile is_space xs"
  by (induction pre) simp_all

lemma trim_surrounded:
  assumes pre: "list_all is_space pre" and post: "list_all is_space post"
  shows "trim (pre @ s @ post) = trim s"
proof -
  have rpost: "list_all is_space (rev post)"
    using post by (simp add: list_all_iff)
  have front: "dropWhile is_space (pre @ s @ post) = dropWhile is_space (s @ post)"
    using pre by (rule dropWhile_spaces)
  show ?thesis
  proof (cases "list_all is_space s")
    case True
    then have "list_all is_space (s @ post)" using post by simp
    then have a: "dropWhile is_space (s @ post) = []"
      by (simp add: list_all_iff)
    from True have b: "dropWhile is_space s = []"
      by (simp add: list_all_iff)
    have "trim (pre @ s @ post) = []"
      unfolding trim_def front a by simp
    moreover have "trim s = []"
      unfolding trim_def b by simp
    ultimately show ?thesis by simp
  next
    case False
    then obtain x where "x \<in> set s" "\<not> is_space x"
      by (auto simp: list_all_iff)
    then have c: "dropWhile is_space (s @ post) = dropWhile is_space s @ post"
      by (rule dropWhile_append1)
    show ?thesis
      unfolding trim_def front c by (simp add: dropWhile_spaces[OF rpost])
  qed
qed

lemma normalizeName_surrounded:
  assumes "list_all is_space pre" and "list_all is_space post"
  shows "normalizeName (pre @ toLowerCase s @ post) = normalizeName s"
proof -
  have "toLowerCase (pre @ toLowerCase s @ post) =
        toLowerCase pre @ toLowerCase s @ toLowerCase post"
    by (simp add: toLowerCase_def lower_char_idem)
  then show ?thesis
    using assms by (simp add: normalizeName_def trim_surrounded toLowerCase_spaces)
qed

lemma getFunctions_Resolved:
  "net (calls w) = Resolved payload \<Longrightarrow>
   getFunctions bold_green net w =
     Some (Returned (map node (edges (payload_functions payload))), send w)"
  by (simp add: getFunctions_def destructure_def client_request_Resolved)

text \<open>
  C9. Given the function list that \<open>getFunctions\<close> returns, \<open>getFunction\<close> returns
  the first function of the list whose lowercased, trimmed name equals the lowercased,
  trimmed requested name, every function before it failing the comparison, and
  \<open>null\<close> when no function of the list passes it. The comparison ignores case and
  surrounding whitespace: asking for the lowercased name wrapped in whitespace gives the
  same answer as asking for the name.
\<close>

theorem getFunction_first_match:
  assumes "getFunctions bold_green net w = Some (Returned fns, w1)"
  shows "getFunction bold_green net functionName w =
           Some (Returned
             (find (\<lambda>fn. trim (toLowerCase (fn_name fn)) = trim (toLowerCase functionName)) fns),
             w1) \<and>
         (case find (\<lambda>fn. trim (toLowerCase (fn_name fn)) = trim (toLowerCase functionName)) fns of
            None \<Rightarrow>
              list_all (\<lambda>fn. trim (toLowerCase (fn_name fn)) \<noteq> trim (toLowerCase functionName))
                fns
          | Some fn \<Rightarrow>
              (\<exists>i<length fns. fn = fns ! i \<and>
                 trim (toLowerCase (fn_name fn)) = trim (toLowerCase functionName) \<and>
                 (\<forall>j<i. trim (toLowerCase (fn_name (fns ! j))) \<noteq>
                         trim (toLowerCase functionName)))) \<and>
         (list_all is_space pre \<and> list_all is_space post \<longrightarrow>
            getFunction bold_green net (pre @ toLowerCase functionName @ post) w =
            getFunction bold_green net functionName w)"
proof -
  let ?match = "\<lambda>fn. trim (toLowerCase (fn_name fn)) = trim (toLowerCase functionName)"
  have ret: "getFunction bold_green net functionName w = Some (Returned (find ?match fns), w1)"
    using assms by (simp add: getFunction_def normalizeName_def)
  have first: "case find ?match fns of
              None \<Rightarrow>
                list_all (\<lambda>fn. trim (toLowerCase (fn_name fn)) \<noteq> trim (toLowerCase functionName))
                  fns
            | Some fn \<Rightarrow>
                (\<exists>i<length fns. fn = fns ! i \<and>
                   trim (toLowerCase (fn_name fn)) = trim (toLowerCase functionName) \<and>
                   (\<forall>j<i. trim (toLowerCase (fn_name (fns ! j))) \<noteq>
                           trim (toLowerCase functionName)))"
  proof (cases "find ?match fns")
    case None
    then have "list_all (\<lambda>fn. trim (toLowerCase (fn_name fn)) \<noteq>
                              trim (toLowerCase functionName)) fns"
      by (simp add: find_None_iff list_all_iff)
    then show ?thesis unfolding None by simp
  next
    case (Some fn)
    then have "\<exists>i<length fns. fn = fns ! i \<and>
                 trim (toLowerCase (fn_name fn)) = trim (toLowerCase functionName) \<and>
                 (\<forall>j<i. trim (toLowerCase (fn_name (fns ! j))) \<noteq>
                         trim (toLowerCase functionName))"
      by (auto simp: find_Some_iff)
    then show ?thesis unfolding Some by simp
  qed
  have inv: "getFunction bold_green net (pre @ toLowerCase functionName @ post) w =
             getFunction bold_green net functionName w"
    if "list_all is_space pre \<and> list_all is_space post"
  proof -
    from that
    have eq: "normalizeName (pre @ toLowerCase functionName @ post) = normalizeName functionName"
      by (intro normalizeName_surrounded) simp_all
    show ?thesis
      unfolding getFunction_def eq by (rule refl)
  qed
  from ret first inv show ?thesis by blast
qed

theorem getFunction_first_match_witness:
  "getFunction id
     (resolving \<lparr>payload_functions = \<lparr>edges =
        [\<lparr>node = \<lparr>fn_name = ''other'', fn_id = ''f1'', fn_type = ''WEBHOOK'',
                   fn_stats = \<lparr>requestCount = 0, errorCount = 0\<rparr>, fn_typename = ''Function''\<rparr>\<rparr>,
         \<lparr>node = \<lparr>fn_name = ''Hello '', fn_id = ''f2'', fn_type = ''WEBHOOK'',
                   fn_stats = \<lparr>requestCount = 3, errorCount = 1\<rparr>, fn_typename = ''Function''\<rparr>\<rparr>,
         \<lparr>node = \<lparr>fn_name = ''hello'', fn_id = ''f3'', fn_type = ''WEBHOOK'',
                   fn_stats = \<lparr>requestCount = 0, errorCount = 0\<rparr>, fn_typename = ''Function''\<rparr>\<rparr>]\<rparr>\<rparr>)
     '' HELLO'' start =
   Some (Returned (Some \<lparr>fn_name = ''Hello '', fn_id = ''f2'', fn_type = ''WEBHOOK'',
                   fn_stats = \<lparr>requestCount = 3, errorCount = 1\<rparr>, fn_typename = ''Function''\<rparr>),
         \<lparr>calls = 1, events = [Requested]\<rparr>)"
proof -
  let ?f1 = "\<lparr>fn_name = ''other'', fn_id = ''f1'', fn_type = ''WEBHOOK'',
                   fn_stats = \<lparr>requestCount = 0, errorCount = 0\<rparr>, fn_typename = ''Function''\<rparr>"
  let ?f2 = "\<lparr>fn_name = ''Hello '', fn_id = ''f2'', fn_type = ''WEBHOOK'',
                   fn_stats = \<lparr>requestCount = 3, errorCount = 1\<rparr>, fn_typename = ''Function''\<rparr>"
  let ?f3 = "\<lparr>fn_name = ''hello'', fn_id = ''f3'', fn_type = ''WEBHOOK'',
                   fn_stats = \<lparr>requestCount = 0, errorCount = 0\<rparr>, fn_typename = ''Function''\<rparr>"
  let ?net = "resolving \<lparr>payload_functions =
                \<lparr>edges = [\<lparr>node = ?f1\<rparr>, \<lparr>node = ?f2\<rparr>, \<lparr>node = ?f3\<rparr>]\<rparr>\<rparr>"
  have fns: "getFunctions id ?net start =
               Some (Returned [?f1, ?f2, ?f3], \<lparr>calls = 1, events = [Requested]\<rparr>)"
    by (simp add: getFunctions_Resolved resolving_def send_def start_def)
  have n1: "trim (toLowerCase ''other'') = ''other''"
    and n2: "trim (toLowerCase ''Hello '') = ''hello''"
    and n: "trim (toLowerCase '' HELLO'') = ''hello''"
    by code_simp+
  from getFunction_first_match[OF fns, of "'' HELLO''" "[]" "[]"]
  have "getFunction id ?net '' HELLO'' start =
          Some (Returned
            (find (\<lambda>fn. trim (toLowerCase (fn_name fn)) = trim (toLowerCase '' HELLO''))
               [?f1, ?f2, ?f3]),
            \<lparr>calls = 1, events = [Requested]\<rparr>)"
    by (rule conjunct1)
  then show ?thesis
    by (simp add: n n1 n2)
qed

subsection \<open>\<open>download\<close>, \<open>upload\<close>, \<open>reset\<close>\<close>

text \<open>
  C10. For every response body, each of \<open>download\<close>, \<open>upload\<close> and \<open>reset\<close>
  returns the body parsed as JSON when \<open>JSON.parse\<close> accepts it, and otherwise throws
  an \<open>Error\<close> whose message is the raw body text.
\<close>

theorem download_upload_reset:
  assumes "net (calls w) = Resolved body"
  shows "download parse net w =
           (case parse body of Some v \<Rightarrow> Returned v | None \<Rightarrow> Threw (Error body), send w) \<and>
         upload parse net w =
           (case parse body of Some v \<Rightarrow> Returned v | None \<Rightarrow> Threw (Error body), send w) \<and>
         reset parse net w =
           (case parse body of Some v \<Rightarrow> Returned v | None \<Rightarrow> Threw (Error body), send w)"
  using assms by (simp add: download_def upload_def reset_def split: option.splits)

theorem download_upload_reset_witness:
  "download parse_null (resolving ''<html>502 Bad Gateway</html>'') start =
     (Threw (Error ''<html>502 Bad Gateway</html>''), \<lparr>calls = 1, events = [Requested]\<rparr>) \<and>
   upload parse_null (resolving ''null'') start =
     (Returned (), \<lparr>calls = 1, events = [Requested]\<rparr>) \<and>
   reset parse_null (resolving ''Unauthorized'') start =
     (Threw (Error ''Unauthorized''), \<lparr>calls = 1, events = [Requested]\<rparr>)"
proof -
  have r: "resolving body (calls start) = Resolved body" for body :: string
    by (simp add: resolving_def)
  note inst = download_upload_reset[where w = start and parse = parse_null]
  from inst[where net = "resolving ''<html>502 Bad Gateway</html>''"
              and body = "''<html>502 Bad Gateway</html>''", OF r]
       inst[where net = "resolving ''null''" and body = "''null''", OF r]
       inst[where net = "resolving ''Unauthorized''" and body = "''Unauthorized''", OF r]
  show ?thesis
    by (simp add: parse_null_def send_def start_def)
qed

end
